theory Spec2Isabelle
  imports Complex_Main
begin

section \<open>Data model\<close>

text \<open>
  A frame is a decoded image (a numpy array in the source).  Only its shape is inspected by
  the code under study; the pixel content is kept as an abstract number so that different
  frames can be told apart.
\<close>

record frame =
  shape0 :: nat
  shape1 :: nat
  pixels :: nat

section \<open>Python numbers\<close>

text \<open>
  A float is represented by the rational number it denotes.  Comparisons of floats are then
  the comparisons of rationals, and so are the sums and halvings of integers of pixel size,
  which are exact.  A product of floats is not exact: it is the float nearest to the exact
  product, ties going to the even significand (IEEE 754 binary64: 53 bits of significand,
  least exponent \<open>-1074\<close>).  Infinities and NaN are not represented.
\<close>

definition pow2 :: "int \<Rightarrow> rat" where
  "pow2 k = (if 0 \<le> k then 2 ^ nat k else 1 / 2 ^ nat (- k))"

text \<open>The number of binary digits of a positive integer.\<close>

function bit_length :: "int \<Rightarrow> int" where
  "bit_length n = (if n \<le> 0 then 0 else 1 + bit_length (n div 2))"
  by pat_completeness auto
termination
  by (relation "measure nat") auto

text \<open>The integer \<open>k\<close> with \<open>2 ^ k \<le> x < 2 ^ (k + 1)\<close>, for positive \<open>x\<close>.\<close>

definition ilog2 :: "rat \<Rightarrow> int" where
  "ilog2 x =
     (if 1 \<le> x then bit_length \<lfloor>x\<rfloor> - 1
      else - bit_length (\<lceil>1 / x\<rceil> - 1))"

definition round_half_even :: "rat \<Rightarrow> int" where
  "round_half_even x =
     (let f = \<lfloor>x\<rfloor>; r = x - of_int f in
      if r < 1 / 2 then f
      else if 1 / 2 < r then f + 1
      else if even f then f else f + 1)"

text \<open>
  The float nearest to a rational: what a decimal literal such as \<open>0.57\<close> denotes, what an
  integer converts to, and what an arithmetic operation returns for its exact result.
\<close>

definition py_float :: "rat \<Rightarrow> rat" where
  "py_float x =
     (if x = 0 then 0
      else
        let e = max (ilog2 \<bar>x\<bar> - 52) (- 1074) in
        sgn x * of_int (round_half_even (\<bar>x\<bar> / pow2 e)) * pow2 e)"

text \<open>
  \<open>x * n\<close> for a float \<open>x\<close> and an integer \<open>n\<close>: the integer is converted, and the exact
  product of the two floats is rounded.  The first operand is a float; a rational that is
  not one is taken as the literal that denotes it.
\<close>

definition float_mul :: "rat \<Rightarrow> int \<Rightarrow> rat" where
  "float_mul x n = py_float (py_float x * py_float (of_int n))"

text \<open>\<open>int(x)\<close> of a float, and \<open>astype(int)\<close> of an array of floats: truncation towards zero.\<close>

definition py_int :: "rat \<Rightarrow> int" where
  "py_int x = (if x \<ge> 0 then \<lfloor>x\<rfloor> else \<lceil>x\<rceil>)"

definition astype_int :: "rat \<times> rat \<times> rat \<times> rat \<Rightarrow> int \<times> int \<times> int \<times> int" where
  "astype_int v = (case v of (a, b, c, d) \<Rightarrow> (py_int a, py_int b, py_int c, py_int d))"

section \<open>Data model, continued\<close>

text \<open>
  A zone is a tuple of four floats \<open>(x1, y1, x2, y2)\<close>, fractions of the frame size, read
  from the camera section of the configuration.
\<close>

type_synonym zone = "rat \<times> rat \<times> rat \<times> rat"

text \<open>
  The configuration values the code reads, after the conversions \<open>int(...)\<close>,
  \<open>float(...)\<close> and \<open>ast.literal_eval(...)\<close> that the source applies at each use.
\<close>

record config =
  bot_frame_timeout :: int
  min_detections_in_a_row :: int
  timeout_count_before_message :: int
  runtime_verbose_level :: int
  imgsz :: int
  detection_classes :: "int list"
  confidence :: rat

text \<open>
  The camera object of \<open>camera_tools.py\<close>.  \<open>cap\<close> is the video source: the frames it
  will still decode; an exhausted source answers every further read with failure.
  \<open>cap_released\<close> counts the calls of \<open>cap.release()\<close>.  \<open>q\<close> is the unbounded FIFO
  \<open>queue.Queue()\<close>, oldest element first.  Instants of time are integers, in microseconds
  (the resolution of \<open>datetime\<close>).
\<close>

record BufferlessVideoCapture =
  cap :: "frame list"
  cap_released :: nat
  q :: "frame list"
  stop_flag :: bool
  name :: string
  zones :: "zone list"
  last_detection_dt :: int
  detections_in_a_row :: int
  queue_timeouts_counter :: int
  draw_frames :: bool

datatype py_error = AttributeError | ZeroDivisionError

section \<open>cv\_utils.py\<close>

definition midpoint_bottom :: "rat \<Rightarrow> rat \<Rightarrow> rat \<Rightarrow> rat \<Rightarrow> rat \<times> rat" where
  "midpoint_bottom x1 y1 x2 y2 = ((x1 + x2) / 2, max y1 y2)"

definition is_point_in_rectangle :: "rat \<times> rat \<Rightarrow> rat \<times> rat \<times> rat \<times> rat \<Rightarrow> bool" where
  "is_point_in_rectangle point rectangle =
     (case rectangle of (x1, y1, x2, y2) \<Rightarrow>
        case point of (x, y) \<Rightarrow> (x1 < x \<and> x < x2) \<and> (y1 < y \<and> y < y2))"

section \<open>camera\_tools.py\<close>

text \<open>
  Instants are counted from 2000-01-01 00:00:00, so \<open>datetime(2000, 1, 1, 1, 1, 1)\<close> is
  3661 seconds.
\<close>

definition datetime_2000_1_1_1_1_1 :: int where
  "datetime_2000_1_1_1_1_1 = 3661 * 1000000"

text \<open>
  \<open>__init__\<close>.  The frames that the source at \<open>rtsp_address\<close> will deliver stand for
  \<open>cv2.VideoCapture(rtsp_address)\<close>.  The reader thread is started two statements before
  \<open>_stop\<close> is assigned; it is taken to find the flag assigned when it first tests it.
\<close>

definition init_vc :: "string \<Rightarrow> frame list \<Rightarrow> zone list \<Rightarrow> bool \<Rightarrow> BufferlessVideoCapture" where
  "init_vc camera_name source zs dr =
     \<lparr>cap = source, cap_released = 0, q = [], stop_flag = False, name = camera_name,
      zones = zs, last_detection_dt = datetime_2000_1_1_1_1_1, detections_in_a_row = 0,
      queue_timeouts_counter = 0, draw_frames = dr\<rparr>"

text \<open>\<open>__del__\<close>: \<open>self.cap.release()\<close>.  A released source decodes nothing more.\<close>

definition del_vc :: "BufferlessVideoCapture \<Rightarrow> BufferlessVideoCapture" where
  "del_vc c = c\<lparr>cap := [], cap_released := cap_released c + 1\<rparr>"

definition stop_reader :: "BufferlessVideoCapture \<Rightarrow> BufferlessVideoCapture" where
  "stop_reader c = c\<lparr>stop_flag := True\<rparr>"

text \<open>
  \<open>read\<close>: \<open>self.q.get(timeout=0.75)\<close>.  A call that finds a frame removes the oldest
  one and returns it; a call that finds none within the timeout raises \<open>queue.Empty\<close>,
  which is caught.  The duration of the wait is not represented: a call that waits and
  then obtains a frame is a call at the later instant.
\<close>

definition read :: "BufferlessVideoCapture \<Rightarrow> frame option \<times> BufferlessVideoCapture" where
  "read c =
     (case q c of
        [] \<Rightarrow> (None, c\<lparr>queue_timeouts_counter := queue_timeouts_counter c + 1\<rparr>)
      | frame # rest \<Rightarrow> (Some frame, c\<lparr>q := rest\<rparr>))"

text \<open>
  \<open>_reader\<close> runs on a thread of its own.  Its loop is cut at the operations on the shared
  objects (the source, the queue, the stop flag), each of which is atomic; the control
  point records which operation comes next and the frame in hand.
\<close>

datatype reader_pc =
    AtCapRead
  | AtEmptyCheck frame
  | AtGetNowait frame
  | AtPut frame
  | AtStopCheck
  | Exited

text \<open>
  The camera object together with its reader thread.  \<open>published\<close> is a history variable:
  the frames handed to \<open>self.q.put\<close>, oldest first.
\<close>

record system =
  vc :: BufferlessVideoCapture
  pc :: reader_pc
  published :: "frame list"

definition init_system :: "string \<Rightarrow> frame list \<Rightarrow> zone list \<Rightarrow> bool \<Rightarrow> system" where
  "init_system camera_name source zs dr =
     \<lparr>vc = init_vc camera_name source zs dr, pc = AtCapRead, published = []\<rparr>"

fun reader_step :: "system \<Rightarrow> system" where
  "reader_step s =
     (case pc s of
        AtCapRead \<Rightarrow>
          (case cap (vc s) of
             [] \<Rightarrow> s\<lparr>pc := Exited\<rparr>
           | frame # rest \<Rightarrow> s\<lparr>vc := (vc s)\<lparr>cap := rest\<rparr>, pc := AtEmptyCheck frame\<rparr>)
      | AtEmptyCheck frame \<Rightarrow>
          (if q (vc s) \<noteq> [] then s\<lparr>pc := AtGetNowait frame\<rparr> else s\<lparr>pc := AtPut frame\<rparr>)
      | AtGetNowait frame \<Rightarrow>
          (case q (vc s) of
             [] \<Rightarrow> s\<lparr>pc := AtPut frame\<rparr>
           | old # rest \<Rightarrow> s\<lparr>vc := (vc s)\<lparr>q := rest\<rparr>, pc := AtPut frame\<rparr>)
      | AtPut frame \<Rightarrow>
          s\<lparr>vc := (vc s)\<lparr>q := q (vc s) @ [frame]\<rparr>, pc := AtStopCheck,
            published := published s @ [frame]\<rparr>
      | AtStopCheck \<Rightarrow> (if stop_flag (vc s) then s\<lparr>pc := Exited\<rparr> else s\<lparr>pc := AtCapRead\<rparr>)
      | Exited \<Rightarrow> s)"

text \<open>
  What can happen next to a camera object: its reader thread performs one operation, the
  main thread calls \<open>read\<close> or \<open>stop_reader\<close>, or the object is finalised.  A schedule
  is a list of such events; \<open>run\<close> performs them in order.
\<close>

datatype event = ReaderStep | ConsumerRead | StopReader | Finalize

fun step :: "event \<Rightarrow> system \<Rightarrow> system" where
  "step ReaderStep s = reader_step s"
| "step ConsumerRead s = s\<lparr>vc := snd (read (vc s))\<rparr>"
| "step StopReader s = s\<lparr>vc := stop_reader (vc s)\<rparr>"
| "step Finalize s = s\<lparr>vc := del_vc (vc s)\<rparr>"

fun run :: "event list \<Rightarrow> system \<Rightarrow> system" where
  "run [] s = s"
| "run (e # es) s = run es (step e s)"

section \<open>telegram\_bot.py\<close>

text \<open>
  The bot (\<open>tbot\<close> below) is the list of what it has sent, oldest first.  A failure report keeps the two
  values its text is formatted from.
\<close>

datatype message = FailureReport string int | Photo frame

text \<open>\<open>timedelta(seconds=n)\<close>, in microseconds.\<close>

definition timedelta_seconds :: "int \<Rightarrow> int" where
  "timedelta_seconds n = n * 1000000"

definition send_frame_condition :: "int \<Rightarrow> BufferlessVideoCapture \<Rightarrow> config \<Rightarrow> bool" where
  "send_frame_condition time_diff camera_vc cfg =
     (if time_diff > timedelta_seconds (bot_frame_timeout cfg)
         \<and> detections_in_a_row camera_vc \<ge> min_detections_in_a_row cfg
      then True else False)"

text \<open>The encoding of the frame as JPEG is taken to succeed.\<close>

definition send_cv2_frame :: "message list \<Rightarrow> frame \<Rightarrow> int \<Rightarrow> config \<Rightarrow> message list" where
  "send_cv2_frame tbot frame verbose_level cfg =
     (if runtime_verbose_level cfg \<ge> verbose_level then tbot @ [Photo frame] else tbot)"

definition check_and_report_camera_failure ::
  "message list \<Rightarrow> BufferlessVideoCapture \<Rightarrow> int \<Rightarrow> config \<Rightarrow> message list" where
  "check_and_report_camera_failure tbot camera_vc verbose_level cfg =
     (let timeout_count = timeout_count_before_message cfg in
      if queue_timeouts_counter camera_vc = timeout_count
         \<and> runtime_verbose_level cfg \<ge> verbose_level
      then tbot @ [FailureReport (name camera_vc) timeout_count]
      else tbot)"

section \<open>setup\_cleanup.py\<close>

definition calculate_frame_size ::
  "BufferlessVideoCapture \<Rightarrow> config \<Rightarrow> (py_error + int \<times> int) \<times> BufferlessVideoCapture" where
  "calculate_frame_size camera_vc cfg =
     (case read camera_vc of (frame, c) \<Rightarrow>
        let width = imgsz cfg in
        case frame of
          None \<Rightarrow> (Inl AttributeError, c)
        | Some f \<Rightarrow>
            if shape1 f = 0 then (Inl ZeroDivisionError, c)
            else (Inr (width,
                       py_int (of_nat (shape0 f) * of_int (imgsz cfg) / of_nat (shape1 f))),
                  c))"

section \<open>main.py\<close>

text \<open>
  A box as the detector returns it: class, confidence and the four corner coordinates
  \<open>box.xyxy[0]\<close>, which are floats.  The detector is a black box: its results for the frame
  of a cycle are an input of the cycle.
\<close>

record box =
  cls :: int
  conf :: rat
  xyxy :: "rat \<times> rat \<times> rat \<times> rat"

text \<open>
  The loop over \<open>camera_vc.zones\<close>, with its \<open>break\<close> at the first zone that holds the
  anchor.  \<open>coordinates\<close> are the integer corners; the bounds of each zone are multiplied,
  as floats, by the width and the height of the frame.
\<close>

fun object_not_in_zones :: "int \<times> int \<times> int \<times> int \<Rightarrow> int \<Rightarrow> int \<Rightarrow> zone list \<Rightarrow> bool" where
  "object_not_in_zones coordinates frame_width frame_height [] = True"
| "object_not_in_zones coordinates frame_width frame_height ((x1, y1, x2, y2) # rest) =
     (if is_point_in_rectangle
           (case coordinates of (a, b, c, d) \<Rightarrow>
              midpoint_bottom (of_int a) (of_int b) (of_int c) (of_int d))
           (float_mul x1 frame_width, float_mul y1 frame_height,
            float_mul x2 frame_width, float_mul y2 frame_height)
      then False
      else object_not_in_zones coordinates frame_width frame_height rest)"

text \<open>
  The loop over the boxes of one result; the flag \<open>any_detection\<close> is threaded through.
  The corners of a wanted box are truncated to integers (\<open>box.xyxy[0].astype(int)\<close>)
  before the zones are looked at.
\<close>

fun boxes_loop :: "config \<Rightarrow> int \<Rightarrow> int \<Rightarrow> zone list \<Rightarrow> box list \<Rightarrow> bool \<Rightarrow> bool" where
  "boxes_loop cfg frame_width frame_height zs [] any_detection = any_detection"
| "boxes_loop cfg frame_width frame_height zs (b # rest) any_detection =
     boxes_loop cfg frame_width frame_height zs rest
       (if cls b \<in> set (detection_classes cfg) \<and> conf b > confidence cfg
        then (if object_not_in_zones (astype_int (xyxy b)) frame_width frame_height zs
              then True else any_detection)
        else any_detection)"

fun results_loop :: "config \<Rightarrow> int \<Rightarrow> int \<Rightarrow> zone list \<Rightarrow> box list list \<Rightarrow> bool \<Rightarrow> bool" where
  "results_loop cfg frame_width frame_height zs [] any_detection = any_detection"
| "results_loop cfg frame_width frame_height zs (boxes # rest) any_detection =
     results_loop cfg frame_width frame_height zs rest
       (boxes_loop cfg frame_width frame_height zs boxes any_detection)"

text \<open>
  The inputs of one cycle for one camera, besides the state: the two readings of the clock
  (before the condition, and after the notification) and the detector's results.
\<close>

record cycle_input =
  now_detection :: int
  now_sent :: int
  results :: "box list list"

text \<open>
  The body of the loop \<open>for camera_vc in camera_vc_list\<close>.  Zooming, resizing, drawing,
  logging and saving do not touch the state modelled here.
\<close>

definition camera_cycle ::
  "config \<Rightarrow> int \<Rightarrow> int \<Rightarrow> cycle_input
     \<Rightarrow> message list \<times> BufferlessVideoCapture \<Rightarrow> message list \<times> BufferlessVideoCapture" where
  "camera_cycle cfg frame_width frame_height inp st =
     (case st of (tbot, camera_vc) \<Rightarrow>
      case read camera_vc of
        (None, c) \<Rightarrow> (check_and_report_camera_failure tbot c 2 cfg, c)
      | (Some frame, c) \<Rightarrow>
          if results_loop cfg frame_width frame_height (zones c) (results inp) False
          then
            (let time_diff = now_detection inp - last_detection_dt c;
                 c' = c\<lparr>detections_in_a_row := detections_in_a_row c + 1\<rparr>
             in if send_frame_condition time_diff c' cfg
                then (send_cv2_frame tbot frame 1 cfg, c'\<lparr>last_detection_dt := now_sent inp\<rparr>)
                else (tbot, c'))
          else (tbot, c\<lparr>detections_in_a_row := 0\<rparr>))"

text \<open>Successive cycles of one camera.\<close>

fun camera_cycles ::
  "config \<Rightarrow> int \<Rightarrow> int \<Rightarrow> cycle_input list
     \<Rightarrow> message list \<times> BufferlessVideoCapture \<Rightarrow> message list \<times> BufferlessVideoCapture" where
  "camera_cycles cfg frame_width frame_height [] st = st"
| "camera_cycles cfg frame_width frame_height (inp # rest) st =
     camera_cycles cfg frame_width frame_height rest
       (camera_cycle cfg frame_width frame_height inp st)"

section \<open>Auxiliary notions for the proofs\<close>

text \<open>
  The invariant of the queue: it holds at most one frame; it is empty when the reader is
  about to put; and a frame it holds is the last one published.
\<close>

definition channel_inv :: "system \<Rightarrow> bool" where
  "channel_inv s =
     (length (q (vc s)) \<le> 1
      \<and> (case pc s of AtPut f \<Rightarrow> q (vc s) = [] | _ \<Rightarrow> True)
      \<and> (q (vc s) = [] \<or> (published s \<noteq> [] \<and> q (vc s) = [last (published s)])))"

text \<open>How many frames the reader can still publish once the stop flag is set.\<close>

definition publishes_left :: "system \<Rightarrow> nat" where
  "publishes_left s = (case pc s of AtStopCheck \<Rightarrow> 0 | Exited \<Rightarrow> 0 | _ \<Rightarrow> 1)"

text \<open>A bound on the operations the reader performs before it exits, once the flag is set.\<close>

definition steps_to_exit :: "system \<Rightarrow> nat" where
  "steps_to_exit s =
     (case pc s of AtCapRead \<Rightarrow> 5 | AtEmptyCheck f \<Rightarrow> 4 | AtGetNowait f \<Rightarrow> 3
      | AtPut f \<Rightarrow> 2 | AtStopCheck \<Rightarrow> 1 | Exited \<Rightarrow> 0)"

section \<open>The frame queue under every interleaving\<close>

lemma channel_inv_init: "channel_inv (init_system n src zs d)"
  by (simp add: channel_inv_def init_system_def init_vc_def)

lemma channel_inv_step: "channel_inv s \<Longrightarrow> channel_inv (step e s)"
  by (cases e; cases "pc s"; cases "q (vc s)"; cases "cap (vc s)")
     (auto simp: channel_inv_def read_def stop_reader_def del_vc_def)

lemma channel_inv_run: "channel_inv s \<Longrightarrow> channel_inv (run es s)"
  by (induction es arbitrary: s) (simp_all add: channel_inv_step)

text \<open>
  Claim C1.  After any schedule of reader operations, reads, stop requests and
  finalisations from the initial state, the queue holds at most one frame.  When the reader
  puts a frame, the queue afterwards holds exactly that frame: this is so at the put itself,
  and for the whole publication of a decoded frame (emptiness check, removal of the pending
  frame if there is one, put), whether the pending frame was consumed or not.  A read at that
  point returns no frame or the most recently published one.
\<close>

theorem single_slot_channel:
  "length (q (vc (run es (init_system n src zs d)))) \<le> 1
   \<and> (pc (run es (init_system n src zs d)) = AtPut f
        \<longrightarrow> q (vc (reader_step (run es (init_system n src zs d)))) = [f])
   \<and> (pc (run es (init_system n src zs d)) = AtEmptyCheck f
        \<longrightarrow> q (vc (run [ReaderStep, ReaderStep, ReaderStep]
                     (run es (init_system n src zs d)))) = [f])
   \<and> (fst (read (vc (run es (init_system n src zs d)))) = None
        \<or> (published (run es (init_system n src zs d)) \<noteq> []
            \<and> fst (read (vc (run es (init_system n src zs d))))
                = Some (last (published (run es (init_system n src zs d))))))"
proof -
  define s where "s = run es (init_system n src zs d)"
  have inv: "channel_inv s"
    unfolding s_def by (rule channel_inv_run [OF channel_inv_init])
  have a: "length (q (vc s)) \<le> 1"
    using inv by (simp add: channel_inv_def)
  have b: "pc s = AtPut f \<longrightarrow> q (vc (reader_step s)) = [f]"
    using inv by (auto simp: channel_inv_def)
  have c: "pc s = AtEmptyCheck f \<longrightarrow> q (vc (run [ReaderStep, ReaderStep, ReaderStep] s)) = [f]"
    using inv by (cases "q (vc s)") (auto simp: channel_inv_def)
  have d: "fst (read (vc s)) = None
        \<or> (published s \<noteq> [] \<and> fst (read (vc s)) = Some (last (published s)))"
    using inv by (cases "q (vc s)") (auto simp: channel_inv_def read_def)
  from a b c d show ?thesis unfolding s_def by blast
qed

theorem single_slot_channel_witness:
  "pc (run [ReaderStep, ReaderStep] (init_system ''Camera_1'' [\<lparr>shape0 = 2, shape1 = 4, pixels = 7\<rparr>, \<lparr>shape0 = 2, shape1 = 4, pixels = 8\<rparr>] [] False)) = AtPut \<lparr>shape0 = 2, shape1 = 4, pixels = 7\<rparr>
   \<and> q (vc (reader_step (run [ReaderStep, ReaderStep] (init_system ''Camera_1'' [\<lparr>shape0 = 2, shape1 = 4, pixels = 7\<rparr>, \<lparr>shape0 = 2, shape1 = 4, pixels = 8\<rparr>] [] False)))) = [\<lparr>shape0 = 2, shape1 = 4, pixels = 7\<rparr>]
   \<and> pc (run [ReaderStep, ReaderStep, ReaderStep, ReaderStep, ReaderStep] (init_system ''Camera_1'' [\<lparr>shape0 = 2, shape1 = 4, pixels = 7\<rparr>, \<lparr>shape0 = 2, shape1 = 4, pixels = 8\<rparr>] [] False)) = AtEmptyCheck \<lparr>shape0 = 2, shape1 = 4, pixels = 8\<rparr>
   \<and> q (vc (run [ReaderStep, ReaderStep, ReaderStep] (run [ReaderStep, ReaderStep, ReaderStep, ReaderStep, ReaderStep] (init_system ''Camera_1'' [\<lparr>shape0 = 2, shape1 = 4, pixels = 7\<rparr>, \<lparr>shape0 = 2, shape1 = 4, pixels = 8\<rparr>] [] False)))) = [\<lparr>shape0 = 2, shape1 = 4, pixels = 8\<rparr>]
   \<and> fst (read (vc (run [ReaderStep, ReaderStep, ReaderStep] (run [ReaderStep, ReaderStep, ReaderStep, ReaderStep, ReaderStep] (init_system ''Camera_1'' [\<lparr>shape0 = 2, shape1 = 4, pixels = 7\<rparr>, \<lparr>shape0 = 2, shape1 = 4, pixels = 8\<rparr>] [] False))))) = Some \<lparr>shape0 = 2, shape1 = 4, pixels = 8\<rparr>"
  using single_slot_channel [of "[ReaderStep, ReaderStep]" "''Camera_1''" "[\<lparr>shape0 = 2, shape1 = 4, pixels = 7\<rparr>, \<lparr>shape0 = 2, shape1 = 4, pixels = 8\<rparr>]" "[]" False "\<lparr>shape0 = 2, shape1 = 4, pixels = 7\<rparr>"]
    single_slot_channel [of "[ReaderStep, ReaderStep, ReaderStep, ReaderStep, ReaderStep]" "''Camera_1''" "[\<lparr>shape0 = 2, shape1 = 4, pixels = 7\<rparr>, \<lparr>shape0 = 2, shape1 = 4, pixels = 8\<rparr>]" "[]" False "\<lparr>shape0 = 2, shape1 = 4, pixels = 8\<rparr>"]
  by (simp add: init_system_def init_vc_def read_def)

section \<open>The timeout counter of read\<close>

text \<open>
  Claim C2, as amended.  A call of \<open>read\<close> that obtains a frame returns it, removes it from
  the queue and leaves \<open>queue_timeouts_counter\<close> as it was; a call that times out returns
  no frame, raises no error and increases the counter by exactly one.
\<close>

theorem read_counter:
  "(q c = frame # rest \<longrightarrow>
      read c = (Some frame, c\<lparr>q := rest\<rparr>)
      \<and> queue_timeouts_counter (snd (read c)) = queue_timeouts_counter c)
   \<and> (q c = [] \<longrightarrow>
      fst (read c) = None
      \<and> queue_timeouts_counter (snd (read c)) = queue_timeouts_counter c + 1
      \<and> snd (read c) = c\<lparr>queue_timeouts_counter := queue_timeouts_counter c + 1\<rparr>)"
  by (simp add: read_def)

theorem read_counter_witness:
  "queue_timeouts_counter
     (snd (read ((init_vc ''Camera_1'' [] [] False)\<lparr>q := [\<lparr>shape0 = 2, shape1 = 4, pixels = 7\<rparr>], queue_timeouts_counter := 3\<rparr>))) = 3
   \<and> fst (read ((init_vc ''Camera_1'' [] [] False)\<lparr>q := [\<lparr>shape0 = 2, shape1 = 4, pixels = 7\<rparr>], queue_timeouts_counter := 3\<rparr>))
       = Some \<lparr>shape0 = 2, shape1 = 4, pixels = 7\<rparr>
   \<and> queue_timeouts_counter
       (snd (read ((init_vc ''Camera_1'' [] [] False)\<lparr>queue_timeouts_counter := 3\<rparr>))) = 4
   \<and> fst (read ((init_vc ''Camera_1'' [] [] False)\<lparr>queue_timeouts_counter := 3\<rparr>)) = None"
  using read_counter [of "(init_vc ''Camera_1'' [] [] False)\<lparr>q := [\<lparr>shape0 = 2, shape1 = 4, pixels = 7\<rparr>], queue_timeouts_counter := 3\<rparr>"
      "\<lparr>shape0 = 2, shape1 = 4, pixels = 7\<rparr>" "[]"]
    read_counter [of "(init_vc ''Camera_1'' [] [] False)\<lparr>queue_timeouts_counter := 3\<rparr>"]
  by (simp add: init_vc_def)

text \<open>
  The counter is not reset by a successful read: one timeout, then a frame is published,
  then a read obtains it, and the counter is still 1.
\<close>

theorem read_counter_counterexample:
  "fst (read (vc (run [ConsumerRead, ReaderStep, ReaderStep, ReaderStep]
        (init_system ''Camera_1'' [\<lparr>shape0 = 2, shape1 = 4, pixels = 7\<rparr>] [] False)))) = Some \<lparr>shape0 = 2, shape1 = 4, pixels = 7\<rparr>
   \<and> queue_timeouts_counter (vc (run [ConsumerRead, ReaderStep, ReaderStep, ReaderStep]
        (init_system ''Camera_1'' [\<lparr>shape0 = 2, shape1 = 4, pixels = 7\<rparr>] [] False))) = 1
   \<and> queue_timeouts_counter (snd (read (vc (run [ConsumerRead, ReaderStep, ReaderStep, ReaderStep]
        (init_system ''Camera_1'' [\<lparr>shape0 = 2, shape1 = 4, pixels = 7\<rparr>] [] False))))) \<noteq> 0"
  by (simp add: init_system_def init_vc_def read_def)

section \<open>Stopping the reader\<close>

lemma stop_flag_step: "stop_flag (vc s) \<Longrightarrow> stop_flag (vc (step e s))"
  by (cases e; cases "pc s"; cases "q (vc s)"; cases "cap (vc s)")
     (auto simp: read_def stop_reader_def del_vc_def)

lemma publishes_step:
  "stop_flag (vc s) \<Longrightarrow>
     length (published (step e s)) + publishes_left (step e s)
       \<le> length (published s) + publishes_left s"
  by (cases e; cases "pc s"; cases "q (vc s)"; cases "cap (vc s)")
     (auto simp: read_def stop_reader_def del_vc_def publishes_left_def)

lemma publishes_run:
  "stop_flag (vc s) \<Longrightarrow>
     length (published (run es s)) + publishes_left (run es s)
       \<le> length (published s) + publishes_left s"
proof (induction es arbitrary: s)
  case Nil
  then show ?case by simp
next
  case (Cons e es)
  have "length (published (run es (step e s))) + publishes_left (run es (step e s))
          \<le> length (published (step e s)) + publishes_left (step e s)"
    by (rule Cons.IH [OF stop_flag_step [OF Cons.prems]])
  also have "\<dots> \<le> length (published s) + publishes_left s"
    by (rule publishes_step [OF Cons.prems])
  finally show ?case by simp
qed

lemma publishes_left_le: "publishes_left s \<le> 1"
  by (simp add: publishes_left_def split: reader_pc.splits)

lemma released_step: "e \<noteq> Finalize \<Longrightarrow> cap_released (vc (step e s)) = cap_released (vc s)"
  by (cases e; cases "pc s"; cases "q (vc s)"; cases "cap (vc s)")
     (auto simp: read_def stop_reader_def)

lemma released_run: "Finalize \<notin> set es \<Longrightarrow> cap_released (vc (run es s)) = cap_released (vc s)"
  by (induction es arbitrary: s) (auto simp: released_step)

lemma steps_to_exit_step:
  "stop_flag (vc s) \<Longrightarrow> steps_to_exit (step ReaderStep s) \<le> steps_to_exit s - 1"
  by (cases "pc s"; cases "q (vc s)"; cases "cap (vc s)") (auto simp: steps_to_exit_def)

lemma steps_to_exit_run:
  "stop_flag (vc s) \<Longrightarrow> steps_to_exit s \<le> k
     \<Longrightarrow> steps_to_exit (run (replicate k ReaderStep) s) = 0"
proof (induction k arbitrary: s)
  case 0
  then show ?case by simp
next
  case (Suc k)
  have "steps_to_exit (step ReaderStep s) \<le> k"
    using steps_to_exit_step [OF Suc.prems(1)] Suc.prems(2) by linarith
  then have "steps_to_exit (run (replicate k ReaderStep) (step ReaderStep s)) = 0"
    by (rule Suc.IH [OF stop_flag_step [OF Suc.prems(1), of ReaderStep]])
  then show ?case by (simp del: step.simps)
qed

lemma reader_exits:
  assumes "stop_flag (vc s)"
  shows "pc (run (replicate 5 ReaderStep) s) = Exited"
proof -
  have "steps_to_exit s \<le> 5"
    by (simp add: steps_to_exit_def split: reader_pc.splits)
  from steps_to_exit_run [OF assms this]
  have "steps_to_exit (run (replicate 5 ReaderStep) s) = 0" .
  then show ?thesis
    by (cases "pc (run (replicate 5 ReaderStep) s)") (simp_all add: steps_to_exit_def)
qed

text \<open>
  Claim C3, as amended.  Once the stop flag is set, the reader publishes at most one more
  frame, whatever the schedule, and it exits within five of its own operations.  No
  operation of the reader, no \<open>read\<close> and no \<open>stop_reader\<close> releases the source: the
  count of releases changes only when the object is finalised, which releases once.
\<close>

theorem stop_then_at_most_one_publish:
  "(stop_flag (vc s) \<longrightarrow>
      length (published (run es s)) \<le> length (published s) + 1
      \<and> pc (run (replicate 5 ReaderStep) s) = Exited)
   \<and> (Finalize \<notin> set es \<longrightarrow> cap_released (vc (run es s)) = cap_released (vc s))
   \<and> cap_released (vc (step Finalize s)) = cap_released (vc s) + 1"
proof -
  have a: "length (published (run es s)) \<le> length (published s) + 1" if "stop_flag (vc s)"
    using publishes_run [OF that, of es] publishes_left_le [of s] by linarith
  have b: "cap_released (vc (step Finalize s)) = cap_released (vc s) + 1"
    by (simp add: del_vc_def)
  from a b reader_exits released_run show ?thesis by blast
qed

theorem stop_then_at_most_one_publish_witness:
  "stop_flag (vc (run [ReaderStep, StopReader] (init_system ''Camera_1'' [\<lparr>shape0 = 2, shape1 = 4, pixels = 7\<rparr>, \<lparr>shape0 = 2, shape1 = 4, pixels = 8\<rparr>] [] False)))
   \<and> Finalize \<notin> set [ReaderStep, ReaderStep, ReaderStep, ReaderStep]
   \<and> length (published (run [ReaderStep, ReaderStep, ReaderStep, ReaderStep] (run [ReaderStep, StopReader] (init_system ''Camera_1'' [\<lparr>shape0 = 2, shape1 = 4, pixels = 7\<rparr>, \<lparr>shape0 = 2, shape1 = 4, pixels = 8\<rparr>] [] False))))
       \<le> length (published (run [ReaderStep, StopReader] (init_system ''Camera_1'' [\<lparr>shape0 = 2, shape1 = 4, pixels = 7\<rparr>, \<lparr>shape0 = 2, shape1 = 4, pixels = 8\<rparr>] [] False))) + 1
   \<and> pc (run (replicate 5 ReaderStep) (run [ReaderStep, StopReader] (init_system ''Camera_1'' [\<lparr>shape0 = 2, shape1 = 4, pixels = 7\<rparr>, \<lparr>shape0 = 2, shape1 = 4, pixels = 8\<rparr>] [] False))) = Exited
   \<and> cap_released (vc (run [ReaderStep, ReaderStep, ReaderStep, ReaderStep] (run [ReaderStep, StopReader] (init_system ''Camera_1'' [\<lparr>shape0 = 2, shape1 = 4, pixels = 7\<rparr>, \<lparr>shape0 = 2, shape1 = 4, pixels = 8\<rparr>] [] False)))) = 0"
  using stop_then_at_most_one_publish [of "run [ReaderStep, StopReader] (init_system ''Camera_1'' [\<lparr>shape0 = 2, shape1 = 4, pixels = 7\<rparr>, \<lparr>shape0 = 2, shape1 = 4, pixels = 8\<rparr>] [] False)" "[ReaderStep, ReaderStep, ReaderStep, ReaderStep]"]
  by (simp add: init_system_def init_vc_def stop_reader_def)

text \<open>
  A stop request that arrives while the reader holds a decoded frame: nothing has been
  published when the flag is set; the reader then publishes the frame, and exits without
  the source having been released.
\<close>

theorem stop_reader_counterexample:
  "stop_flag (vc (run [ReaderStep, StopReader] (init_system ''Camera_1'' [\<lparr>shape0 = 2, shape1 = 4, pixels = 7\<rparr>, \<lparr>shape0 = 2, shape1 = 4, pixels = 8\<rparr>] [] False)))
   \<and> published (run [ReaderStep, StopReader] (init_system ''Camera_1'' [\<lparr>shape0 = 2, shape1 = 4, pixels = 7\<rparr>, \<lparr>shape0 = 2, shape1 = 4, pixels = 8\<rparr>] [] False)) = []
   \<and> published (run [ReaderStep, StopReader, ReaderStep, ReaderStep] (init_system ''Camera_1'' [\<lparr>shape0 = 2, shape1 = 4, pixels = 7\<rparr>, \<lparr>shape0 = 2, shape1 = 4, pixels = 8\<rparr>] [] False)) = [\<lparr>shape0 = 2, shape1 = 4, pixels = 7\<rparr>]
   \<and> pc (run [ReaderStep, StopReader, ReaderStep, ReaderStep, ReaderStep] (init_system ''Camera_1'' [\<lparr>shape0 = 2, shape1 = 4, pixels = 7\<rparr>, \<lparr>shape0 = 2, shape1 = 4, pixels = 8\<rparr>] [] False)) = Exited
   \<and> cap_released (vc (run [ReaderStep, StopReader, ReaderStep, ReaderStep, ReaderStep] (init_system ''Camera_1'' [\<lparr>shape0 = 2, shape1 = 4, pixels = 7\<rparr>, \<lparr>shape0 = 2, shape1 = 4, pixels = 8\<rparr>] [] False))) = 0"
  by (simp add: init_system_def init_vc_def stop_reader_def)

section \<open>The failure report\<close>

lemma timeout_cycle:
  "q c = [] \<Longrightarrow>
     camera_cycle cfg fw fh inp (tbot, c) =
       (check_and_report_camera_failure tbot
          (c\<lparr>queue_timeouts_counter := queue_timeouts_counter c + 1\<rparr>) 2 cfg,
        c\<lparr>queue_timeouts_counter := queue_timeouts_counter c + 1\<rparr>)"
  by (simp add: camera_cycle_def read_def)

lemma timeout_cycles:
  "q c = [] \<Longrightarrow>
     camera_cycles cfg fw fh ins (tbot, c) =
       (tbot @ (if queue_timeouts_counter c < timeout_count_before_message cfg
                   \<and> timeout_count_before_message cfg \<le> queue_timeouts_counter c + int (length ins)
                   \<and> 2 \<le> runtime_verbose_level cfg
                then [FailureReport (name c) (timeout_count_before_message cfg)] else []),
        c\<lparr>queue_timeouts_counter := queue_timeouts_counter c + int (length ins)\<rparr>)"
proof (induction ins arbitrary: tbot c)
  case Nil
  then show ?case by simp
next
  case (Cons inp ins)
  let ?c = "c\<lparr>queue_timeouts_counter := queue_timeouts_counter c + 1\<rparr>"
  have qc: "q ?c = []" using Cons.prems by simp
  show ?case
    unfolding camera_cycles.simps timeout_cycle [OF Cons.prems] Cons.IH [OF qc]
    by (auto simp: check_and_report_camera_failure_def)
qed

text \<open>
  Claim C4, as amended.  \<open>check_and_report_camera_failure\<close> sends a report when and only
  when the timeout counter is equal to the configured threshold and the configured verbose
  level is at least the level of the call (2 in the main loop).  For a camera whose counter
  is 0, a threshold \<open>N \<ge> 1\<close> and a verbose level of at least 2, \<open>N\<close> consecutive cycles
  that time out send exactly one report, and one more such cycle sends none.
\<close>

theorem failure_report_exact_threshold:
  "(queue_timeouts_counter c = timeout_count_before_message cfg
      \<and> verbose_level \<le> runtime_verbose_level cfg
      \<longrightarrow> check_and_report_camera_failure tbot c verbose_level cfg
            = tbot @ [FailureReport (name c) (timeout_count_before_message cfg)])
   \<and> (\<not> (queue_timeouts_counter c = timeout_count_before_message cfg
          \<and> verbose_level \<le> runtime_verbose_level cfg)
      \<longrightarrow> check_and_report_camera_failure tbot c verbose_level cfg = tbot)
   \<and> (q c = [] \<and> queue_timeouts_counter c = 0 \<and> 1 \<le> timeout_count_before_message cfg
        \<and> 2 \<le> runtime_verbose_level cfg \<and> int (length ins) = timeout_count_before_message cfg
      \<longrightarrow> fst (camera_cycles cfg fw fh ins ([], c))
            = [FailureReport (name c) (timeout_count_before_message cfg)]
          \<and> fst (camera_cycles cfg fw fh (ins @ [inp]) ([], c))
            = [FailureReport (name c) (timeout_count_before_message cfg)])"
proof -
  have a: "q c = [] \<longrightarrow> fst (camera_cycles cfg fw fh ins ([], c)) =
       (if queue_timeouts_counter c < timeout_count_before_message cfg
           \<and> timeout_count_before_message cfg \<le> queue_timeouts_counter c + int (length ins)
           \<and> 2 \<le> runtime_verbose_level cfg
        then [FailureReport (name c) (timeout_count_before_message cfg)] else [])" for ins
    by (simp add: timeout_cycles)
  show ?thesis
    using a [of ins] a [of "ins @ [inp]"]
    by (auto simp: check_and_report_camera_failure_def)
qed

theorem failure_report_exact_threshold_witness:
  "fst (camera_cycles
          \<lparr>bot_frame_timeout = 60, min_detections_in_a_row = 3, timeout_count_before_message = 5,
        runtime_verbose_level = 2, imgsz = 640, detection_classes = [0], confidence = 1 / 2\<rparr>
          640 480 (replicate 5 \<lparr>now_detection = 0, now_sent = 0, results = []\<rparr>) ([], init_vc ''Camera_1'' [] [] False))
     = [FailureReport ''Camera_1'' 5]
   \<and> fst (camera_cycles
          \<lparr>bot_frame_timeout = 60, min_detections_in_a_row = 3, timeout_count_before_message = 5,
        runtime_verbose_level = 2, imgsz = 640, detection_classes = [0], confidence = 1 / 2\<rparr>
          640 480 (replicate 5 \<lparr>now_detection = 0, now_sent = 0, results = []\<rparr> @ [\<lparr>now_detection = 0, now_sent = 0, results = []\<rparr>]) ([], init_vc ''Camera_1'' [] [] False))
     = [FailureReport ''Camera_1'' 5]"
  using failure_report_exact_threshold
    [of "init_vc ''Camera_1'' [] [] False"
        "\<lparr>bot_frame_timeout = 60, min_detections_in_a_row = 3, timeout_count_before_message = 5,
        runtime_verbose_level = 2, imgsz = 640, detection_classes = [0], confidence = 1 / 2\<rparr>"
        2 "[]" "replicate 5 \<lparr>now_detection = 0, now_sent = 0, results = []\<rparr>" 640 480 "\<lparr>now_detection = 0, now_sent = 0, results = []\<rparr>"]
  by (simp add: init_vc_def)

text \<open>
  With the verbose level 1 and the threshold 5, five consecutive timeouts bring the counter
  to 5 and nothing is sent.
\<close>

theorem failure_report_counterexample:
  "fst (camera_cycles
          \<lparr>bot_frame_timeout = 60, min_detections_in_a_row = 3, timeout_count_before_message = 5,
        runtime_verbose_level = 1, imgsz = 640, detection_classes = [0], confidence = 1 / 2\<rparr>
          640 480 (replicate 5 \<lparr>now_detection = 0, now_sent = 0, results = []\<rparr>) ([], init_vc ''Camera_1'' [] [] False)) = []
   \<and> queue_timeouts_counter (snd (camera_cycles
          \<lparr>bot_frame_timeout = 60, min_detections_in_a_row = 3, timeout_count_before_message = 5,
        runtime_verbose_level = 1, imgsz = 640, detection_classes = [0], confidence = 1 / 2\<rparr>
          640 480 (replicate 5 \<lparr>now_detection = 0, now_sent = 0, results = []\<rparr>) ([], init_vc ''Camera_1'' [] [] False))) = 5"
  by (simp add: numeral_eq_Suc camera_cycle_def read_def init_vc_def
        check_and_report_camera_failure_def)

section \<open>Notification condition\<close>

text \<open>
  Claim C5.  The notification condition is true exactly when the streak
  \<open>detections_in_a_row\<close> is at least the configured minimum and the time elapsed since the
  last notification exceeds the configured interval.  In particular it is false when the
  streak is below the minimum, whatever the elapsed time, and false when the interval has
  not elapsed, whatever the streak.
\<close>

theorem send_frame_condition_iff:
  "(send_frame_condition time_diff camera_vc cfg \<longleftrightarrow>
      detections_in_a_row camera_vc \<ge> min_detections_in_a_row cfg
      \<and> time_diff > timedelta_seconds (bot_frame_timeout cfg))
   \<and> (detections_in_a_row camera_vc < min_detections_in_a_row cfg
        \<longrightarrow> \<not> send_frame_condition time_diff camera_vc cfg)
   \<and> (\<not> time_diff > timedelta_seconds (bot_frame_timeout cfg)
        \<longrightarrow> \<not> send_frame_condition time_diff camera_vc cfg)"
  by (auto simp add: send_frame_condition_def)

theorem send_frame_condition_iff_witness:
  "send_frame_condition 61000000 ((init_vc ''Camera_1'' [] [] False)\<lparr>detections_in_a_row := 3\<rparr>)
     \<lparr>bot_frame_timeout = 60, min_detections_in_a_row = 3, timeout_count_before_message = 5,
        runtime_verbose_level = 2, imgsz = 640, detection_classes = [0], confidence = 1 / 2\<rparr>
   \<and> \<not> send_frame_condition 61000000 ((init_vc ''Camera_1'' [] [] False)\<lparr>detections_in_a_row := 2\<rparr>)
     \<lparr>bot_frame_timeout = 60, min_detections_in_a_row = 3, timeout_count_before_message = 5,
        runtime_verbose_level = 2, imgsz = 640, detection_classes = [0], confidence = 1 / 2\<rparr>
   \<and> \<not> send_frame_condition 60000000 ((init_vc ''Camera_1'' [] [] False)\<lparr>detections_in_a_row := 3\<rparr>)
     \<lparr>bot_frame_timeout = 60, min_detections_in_a_row = 3, timeout_count_before_message = 5,
        runtime_verbose_level = 2, imgsz = 640, detection_classes = [0], confidence = 1 / 2\<rparr>"
  using send_frame_condition_iff [of 61000000 "(init_vc ''Camera_1'' [] [] False)\<lparr>detections_in_a_row := 3\<rparr>"
      "\<lparr>bot_frame_timeout = 60, min_detections_in_a_row = 3, timeout_count_before_message = 5,
        runtime_verbose_level = 2, imgsz = 640, detection_classes = [0], confidence = 1 / 2\<rparr>"]
    send_frame_condition_iff [of 61000000 "(init_vc ''Camera_1'' [] [] False)\<lparr>detections_in_a_row := 2\<rparr>"
      "\<lparr>bot_frame_timeout = 60, min_detections_in_a_row = 3, timeout_count_before_message = 5,
        runtime_verbose_level = 2, imgsz = 640, detection_classes = [0], confidence = 1 / 2\<rparr>"]
    send_frame_condition_iff [of 60000000 "(init_vc ''Camera_1'' [] [] False)\<lparr>detections_in_a_row := 3\<rparr>"
      "\<lparr>bot_frame_timeout = 60, min_detections_in_a_row = 3, timeout_count_before_message = 5,
        runtime_verbose_level = 2, imgsz = 640, detection_classes = [0], confidence = 1 / 2\<rparr>"]
  by (simp add: init_vc_def timedelta_seconds_def)

section \<open>Zones\<close>

text \<open>
  Three products as the floats have them: \<open>0.57 * 100\<close> is \<open>56.99999999999999\<close>, below
  57, while \<open>0.1 * 100\<close> and \<open>0.9 * 100\<close> are 10 and 90.
\<close>

lemma float_mul_57_100: "float_mul (57 / 100) 100 = 8022036836253695 / 140737488355328"
  by code_simp

lemma float_mul_1_10_100: "float_mul (1 / 10) 100 = 10"
  by code_simp

lemma float_mul_9_10_100: "float_mul (9 / 10) 100 = 90"
  by code_simp

lemma astype_int_example: "astype_int (1 / 2, 1 / 5, 109 / 10, 57 / 10) = (0, 0, 10, 5)"
  by code_simp

lemma object_not_in_zones_iff:
  "object_not_in_zones co fw fh zs \<longleftrightarrow>
     (\<forall>z \<in> set zs.
        \<not> is_point_in_rectangle
             (case co of (a, b, c, d) \<Rightarrow>
                midpoint_bottom (of_int a) (of_int b) (of_int c) (of_int d))
             (float_mul (fst z) fw, float_mul (fst (snd z)) fh,
              float_mul (fst (snd (snd z))) fw, float_mul (snd (snd (snd z))) fh))"
  by (induction co fw fh zs rule: object_not_in_zones.induct) simp_all

lemma boxes_loop_iff:
  "boxes_loop cfg fw fh zs bs flag \<longleftrightarrow>
     flag \<or> (\<exists>b \<in> set bs. cls b \<in> set (detection_classes cfg) \<and> conf b > confidence cfg
                \<and> object_not_in_zones (astype_int (xyxy b)) fw fh zs)"
  by (induction bs arbitrary: flag) auto

lemma results_loop_iff:
  "results_loop cfg fw fh zs rs flag \<longleftrightarrow>
     flag \<or> (\<exists>bs \<in> set rs. \<exists>b \<in> set bs. cls b \<in> set (detection_classes cfg)
                \<and> conf b > confidence cfg
                \<and> object_not_in_zones (astype_int (xyxy b)) fw fh zs)"
  by (induction rs arbitrary: flag) (auto simp: boxes_loop_iff)

text \<open>
  Claim C6.  The anchor of a box \<open>(x1, y1, x2, y2)\<close> is \<open>((x1 + x2) / 2, max y1 y2)\<close>.  A
  detection, with the integer corners the main loop works with, is dropped by the loop over
  the zones exactly when, for some zone, this anchor lies strictly between the zone's
  horizontal bounds multiplied by the frame width and strictly between its vertical bounds
  multiplied by the frame height, the products being those of floats.  A frame counts as
  holding a detection exactly when some box of a wanted class, above the confidence
  threshold, is not dropped; the corners of a box are truncated to integers first.
\<close>

theorem anchor_zone_suppression:
  "midpoint_bottom x1 y1 x2 y2 = ((x1 + x2) / 2, max y1 y2)
   \<and> (\<not> object_not_in_zones (a, b, c, d) fw fh zs \<longleftrightarrow>
        (\<exists>z \<in> set zs. case z of (zx1, zy1, zx2, zy2) \<Rightarrow>
           float_mul zx1 fw < (of_int a + of_int c) / 2
           \<and> (of_int a + of_int c) / 2 < float_mul zx2 fw
           \<and> float_mul zy1 fh < max (of_int b) (of_int d)
           \<and> max (of_int b) (of_int d) < float_mul zy2 fh))
   \<and> (boxes_loop cfg fw fh zs bs False \<longleftrightarrow>
        (\<exists>bx \<in> set bs. cls bx \<in> set (detection_classes cfg) \<and> conf bx > confidence cfg
           \<and> object_not_in_zones (astype_int (xyxy bx)) fw fh zs))"
  by (simp add: object_not_in_zones_iff boxes_loop_iff midpoint_bottom_def
        is_point_in_rectangle_def case_prod_beta) blast

text \<open>
  Two boxes on a frame of 100 by 100 pixels with the zone \<open>(0.57, 0.1, 0.9, 0.9)\<close>.  The
  anchor of \<open>(56, 40, 58, 50)\<close> is \<open>(57, 50)\<close>; the left bound of the zone is
  \<open>56.99999999999999\<close>, so the box is dropped.  The box \<open>(0.5, 0.2, 10.9, 5.7)\<close> is
  truncated to \<open>(0, 0, 10, 5)\<close>, its anchor \<open>(5, 5)\<close> is outside the zone, and the frame
  counts as holding a detection.
\<close>

theorem anchor_zone_suppression_witness:
  "\<not> object_not_in_zones (56, 40, 58, 50) 100 100 [(57 / 100, 1 / 10, 9 / 10, 9 / 10)]
   \<and> boxes_loop \<lparr>bot_frame_timeout = 60, min_detections_in_a_row = 3,
         timeout_count_before_message = 5, runtime_verbose_level = 2, imgsz = 640,
         detection_classes = [0], confidence = 1 / 2\<rparr>
        100 100 [(57 / 100, 1 / 10, 9 / 10, 9 / 10)]
        [\<lparr>cls = 0, conf = 3 / 4, xyxy = (1 / 2, 1 / 5, 109 / 10, 57 / 10)\<rparr>] False"
  using anchor_zone_suppression [of 56 40 58 50 56 40 58 50 100 100
     "[(57 / 100, 1 / 10, 9 / 10, 9 / 10)]"
     "\<lparr>bot_frame_timeout = 60, min_detections_in_a_row = 3,
         timeout_count_before_message = 5, runtime_verbose_level = 2, imgsz = 640,
         detection_classes = [0], confidence = 1 / 2\<rparr>"
     "[\<lparr>cls = 0, conf = 3 / 4, xyxy = (1 / 2, 1 / 5, 109 / 10, 57 / 10)\<rparr>]"]
  by (simp add: midpoint_bottom_def is_point_in_rectangle_def astype_int_example
        float_mul_57_100 float_mul_1_10_100 float_mul_9_10_100)

text \<open>
  Claim C7.  A point is in a rectangle exactly when it lies strictly between the two
  horizontal bounds and strictly between the two vertical bounds.  No point on a bound is
  in the rectangle, the corner \<open>(x_left, y_top)\<close> among them.  The point
  \<open>(x_left + eps, y_top + eps)\<close> is in the rectangle for every positive \<open>eps\<close> smaller
  than the rectangle's width and height.
\<close>

theorem open_interval_containment:
  "(is_point_in_rectangle (x, y) (x_left, y_top, x_right, y_bottom)
      \<longleftrightarrow> x_left < x \<and> x < x_right \<and> y_top < y \<and> y < y_bottom)
   \<and> \<not> is_point_in_rectangle (x_left, y_top) (x_left, y_top, x_right, y_bottom)
   \<and> \<not> is_point_in_rectangle (x_left, y) (x_left, y_top, x_right, y_bottom)
   \<and> \<not> is_point_in_rectangle (x_right, y) (x_left, y_top, x_right, y_bottom)
   \<and> \<not> is_point_in_rectangle (x, y_top) (x_left, y_top, x_right, y_bottom)
   \<and> \<not> is_point_in_rectangle (x, y_bottom) (x_left, y_top, x_right, y_bottom)
   \<and> (0 < eps \<and> eps < x_right - x_left \<and> eps < y_bottom - y_top
        \<longrightarrow> is_point_in_rectangle (x_left + eps, y_top + eps) (x_left, y_top, x_right, y_bottom))"
  by (auto simp: is_point_in_rectangle_def)

theorem open_interval_containment_witness:
  "\<not> is_point_in_rectangle (10, 10) (10, 10, 90, 90)
   \<and> is_point_in_rectangle (10 + 1 / 1000, 10 + 1 / 1000) (10, 10, 90, 90)"
  using open_interval_containment [of 10 10 10 10 90 90 "1 / 1000"]
  by simp

text \<open>
  Claim C8, as amended.  With the zone \<open>(0.1, 0.1, 0.9, 0.9)\<close> on a frame of 100 by 100
  pixels, the rectangle is \<open>(10, 10, 90, 90)\<close>.  A box with anchor \<open>(50, 95)\<close> is outside
  it, since 95 is not below 90, and is not dropped; a box with anchor \<open>(5, 5)\<close> is outside
  it and is not dropped.
\<close>

theorem zone_scenario:
  "midpoint_bottom 40 80 60 95 = (50, 95)
   \<and> \<not> is_point_in_rectangle (50, 95) (1 / 10 * 100, 1 / 10 * 100, 9 / 10 * 100, 9 / 10 * 100)
   \<and> object_not_in_zones (40, 80, 60, 95) 100 100 [(1 / 10, 1 / 10, 9 / 10, 9 / 10)]
   \<and> midpoint_bottom 0 0 10 5 = (5, 5)
   \<and> \<not> is_point_in_rectangle (5, 5) (1 / 10 * 100, 1 / 10 * 100, 9 / 10 * 100, 9 / 10 * 100)
   \<and> object_not_in_zones (0, 0, 10, 5) 100 100 [(1 / 10, 1 / 10, 9 / 10, 9 / 10)]"
  by (simp add: is_point_in_rectangle_def midpoint_bottom_def
        float_mul_1_10_100 float_mul_9_10_100)

text \<open>The anchor \<open>(50, 95)\<close>, of the box \<open>(40, 80, 60, 95)\<close> say, is not inside the scaled zone.\<close>

theorem zone_scenario_counterexample:
  "\<not> is_point_in_rectangle (50, 95) (1 / 10 * 100, 1 / 10 * 100, 9 / 10 * 100, 9 / 10 * 100)
   \<and> \<not> is_point_in_rectangle (midpoint_bottom 40 80 60 95)
         (1 / 10 * 100, 1 / 10 * 100, 9 / 10 * 100, 9 / 10 * 100)"
  by (simp add: is_point_in_rectangle_def midpoint_bottom_def)

section \<open>The streak of detections\<close>

text \<open>
  Claim C9.  A cycle whose \<open>read\<close> times out leaves \<open>detections_in_a_row\<close> unchanged.  A
  cycle that obtains a frame on which no box is of a wanted class, above the confidence
  threshold and, with its corners truncated to integers, outside every zone sets
  \<open>detections_in_a_row\<close> to 0.
\<close>

theorem streak_reset_asymmetry:
  "(q c = [] \<longrightarrow>
      detections_in_a_row (snd (camera_cycle cfg fw fh inp (tbot, c))) = detections_in_a_row c)
   \<and> (q c \<noteq> []
       \<and> (\<forall>bs \<in> set (results inp). \<forall>b \<in> set bs.
             \<not> (cls b \<in> set (detection_classes cfg) \<and> conf b > confidence cfg
                \<and> object_not_in_zones (astype_int (xyxy b)) fw fh (zones c)))
      \<longrightarrow> detections_in_a_row (snd (camera_cycle cfg fw fh inp (tbot, c))) = 0)"
  by (cases "q c") (auto simp: camera_cycle_def read_def results_loop_iff)

theorem streak_reset_asymmetry_witness:
  "detections_in_a_row (snd (camera_cycle
       \<lparr>bot_frame_timeout = 60, min_detections_in_a_row = 3,
         timeout_count_before_message = 5, runtime_verbose_level = 2, imgsz = 640,
         detection_classes = [0], confidence = 1 / 2\<rparr> 100 100
       \<lparr>now_detection = 0, now_sent = 0, results = [[\<lparr>cls = 0, conf = 3 / 4, xyxy = (40, 60, 60, 80)\<rparr>]]\<rparr>
       ([], (init_vc ''Camera_1'' [] [(1/10, 1/10, 9/10, 9/10)] False)\<lparr>detections_in_a_row := 2\<rparr>))) = 2
   \<and> detections_in_a_row (snd (camera_cycle
       \<lparr>bot_frame_timeout = 60, min_detections_in_a_row = 3,
         timeout_count_before_message = 5, runtime_verbose_level = 2, imgsz = 640,
         detection_classes = [0], confidence = 1 / 2\<rparr> 100 100
       \<lparr>now_detection = 0, now_sent = 0, results = [[\<lparr>cls = 0, conf = 3 / 4, xyxy = (40, 60, 60, 80)\<rparr>]]\<rparr>
       ([], (init_vc ''Camera_1'' [] [(1/10, 1/10, 9/10, 9/10)] False)
              \<lparr>detections_in_a_row := 2, q := [\<lparr>shape0 = 2, shape1 = 4, pixels = 7\<rparr>]\<rparr>))) = 0"
  using streak_reset_asymmetry [of "(init_vc ''Camera_1'' [] [(1/10, 1/10, 9/10, 9/10)] False)\<lparr>detections_in_a_row := 2\<rparr>"
       "\<lparr>bot_frame_timeout = 60, min_detections_in_a_row = 3,
         timeout_count_before_message = 5, runtime_verbose_level = 2, imgsz = 640,
         detection_classes = [0], confidence = 1 / 2\<rparr>" 100 100
       "\<lparr>now_detection = 0, now_sent = 0, results = [[\<lparr>cls = 0, conf = 3 / 4, xyxy = (40, 60, 60, 80)\<rparr>]]\<rparr>" "[]"]
    streak_reset_asymmetry [of "(init_vc ''Camera_1'' [] [(1/10, 1/10, 9/10, 9/10)] False)
              \<lparr>detections_in_a_row := 2, q := [\<lparr>shape0 = 2, shape1 = 4, pixels = 7\<rparr>]\<rparr>"
       "\<lparr>bot_frame_timeout = 60, min_detections_in_a_row = 3,
         timeout_count_before_message = 5, runtime_verbose_level = 2, imgsz = 640,
         detection_classes = [0], confidence = 1 / 2\<rparr>" 100 100
       "\<lparr>now_detection = 0, now_sent = 0, results = [[\<lparr>cls = 0, conf = 3 / 4, xyxy = (40, 60, 60, 80)\<rparr>]]\<rparr>" "[]"]
  by (simp add: init_vc_def midpoint_bottom_def is_point_in_rectangle_def
        astype_int_def py_int_def float_mul_1_10_100 float_mul_9_10_100)

section \<open>The frame size\<close>

text \<open>
  Claim C10.  When the read in \<open>calculate_frame_size\<close> times out, the function fails with
  an \<open>AttributeError\<close>: the missing frame is not handled.  It returns a size only when
  the read obtained a frame; for a frame of non-zero width the size is the configured
  \<open>imgsz\<close> and the height scaled in proportion.
\<close>

theorem calculate_frame_size_needs_frame:
  "(q c = [] \<longrightarrow> fst (calculate_frame_size c cfg) = Inl AttributeError)
   \<and> (fst (calculate_frame_size c cfg) = Inr (w, h) \<longrightarrow> q c \<noteq> [])
   \<and> (q c = frame # rest \<and> shape1 frame \<noteq> 0 \<longrightarrow>
        fst (calculate_frame_size c cfg)
          = Inr (imgsz cfg,
                 py_int (of_nat (shape0 frame) * of_int (imgsz cfg) / of_nat (shape1 frame))))"
  by (cases "q c") (auto simp: calculate_frame_size_def read_def Let_def)

theorem calculate_frame_size_needs_frame_witness:
  "fst (calculate_frame_size (init_vc ''Camera_1'' [] [] False)
         \<lparr>bot_frame_timeout = 60, min_detections_in_a_row = 3,
          timeout_count_before_message = 5, runtime_verbose_level = 2, imgsz = 640,
          detection_classes = [0], confidence = 1 / 2\<rparr>) = Inl AttributeError
   \<and> fst (calculate_frame_size
         ((init_vc ''Camera_1'' [] [] False)\<lparr>q := [\<lparr>shape0 = 1080, shape1 = 1920, pixels = 7\<rparr>]\<rparr>)
         \<lparr>bot_frame_timeout = 60, min_detections_in_a_row = 3,
          timeout_count_before_message = 5, runtime_verbose_level = 2, imgsz = 640,
          detection_classes = [0], confidence = 1 / 2\<rparr>) = Inr (640, 360)"
  using calculate_frame_size_needs_frame [of "init_vc ''Camera_1'' [] [] False"
         "\<lparr>bot_frame_timeout = 60, min_detections_in_a_row = 3,
          timeout_count_before_message = 5, runtime_verbose_level = 2, imgsz = 640,
          detection_classes = [0], confidence = 1 / 2\<rparr>"]
    calculate_frame_size_needs_frame [of
         "(init_vc ''Camera_1'' [] [] False)\<lparr>q := [\<lparr>shape0 = 1080, shape1 = 1920, pixels = 7\<rparr>]\<rparr>"
         "\<lparr>bot_frame_timeout = 60, min_detections_in_a_row = 3,
          timeout_count_before_message = 5, runtime_verbose_level = 2, imgsz = 640,
          detection_classes = [0], confidence = 1 / 2\<rparr>" 640 360
          "\<lparr>shape0 = 1080, shape1 = 1920, pixels = 7\<rparr>" "[]"]
  by (simp add: init_vc_def py_int_def)

end
